theory Spec2Isabelle
  imports Complex_Main
begin

section \<open>Python values\<close>

text \<open>
  A Python float. A finite value carries its real number: the operations below neither
  round nor overflow, and the sign of zero is left out. The special values \<open>inf\<close>, \<open>-inf\<close>
  and \<open>nan\<close> are kept, since they decide whether a computation returns a number or a
  special value; they come from an operation (\<open>log 0\<close>) or from a library call that
  returns them (the factors of a factorization that overflowed).
\<close>

datatype fl = Fin real | PInf | MInf | NaN

fun is_finite :: "fl \<Rightarrow> bool" where
  "is_finite (Fin a) = True"
| "is_finite PInf = False"
| "is_finite MInf = False"
| "is_finite NaN = False"

fun fneg :: "fl \<Rightarrow> fl" where
  "fneg (Fin a) = Fin (- a)"
| "fneg PInf = MInf"
| "fneg MInf = PInf"
| "fneg NaN = NaN"

fun fadd :: "fl \<Rightarrow> fl \<Rightarrow> fl" where
  "fadd (Fin a) (Fin b) = Fin (a + b)"
| "fadd (Fin a) PInf = PInf"
| "fadd (Fin a) MInf = MInf"
| "fadd PInf (Fin b) = PInf"
| "fadd PInf PInf = PInf"
| "fadd PInf MInf = NaN"
| "fadd MInf (Fin b) = MInf"
| "fadd MInf MInf = MInf"
| "fadd MInf PInf = NaN"
| "fadd NaN y = NaN"
| "fadd x NaN = NaN"

definition fsub :: "fl \<Rightarrow> fl \<Rightarrow> fl" where
  "fsub x y = fadd x (fneg y)"

text \<open>The product \<open>c * x\<close> of a finite Python float constant \<open>c\<close> and a float.\<close>

fun fscale :: "real \<Rightarrow> fl \<Rightarrow> fl" where
  "fscale c (Fin a) = Fin (c * a)"
| "fscale c PInf = (if c = 0 then NaN else if 0 < c then PInf else MInf)"
| "fscale c MInf = (if c = 0 then NaN else if 0 < c then MInf else PInf)"
| "fscale c NaN = NaN"

text \<open>\<open>np.absolute\<close> and \<open>np.log\<close> on one entry; \<open>np.log(0.0)\<close> is \<open>-inf\<close> (numpy warns, it
  does not raise), the logarithm of a negative number is \<open>nan\<close>.\<close>

fun np_absolute :: "fl \<Rightarrow> fl" where
  "np_absolute (Fin a) = Fin \<bar>a\<bar>"
| "np_absolute PInf = PInf"
| "np_absolute MInf = PInf"
| "np_absolute NaN = NaN"

fun np_log :: "fl \<Rightarrow> fl" where
  "np_log (Fin a) = (if 0 < a then Fin (ln a) else if a = 0 then MInf else NaN)"
| "np_log PInf = PInf"
| "np_log MInf = NaN"
| "np_log NaN = NaN"

text \<open>\<open>np.sum\<close> of a vector and Python's \<open>sum\<close> of floats: both start from zero.\<close>

definition np_sum :: "fl list \<Rightarrow> fl" where
  "np_sum xs = foldl fadd (Fin 0) xs"

definition py_sum :: "fl list \<Rightarrow> fl" where
  "py_sum xs = foldl fadd (Fin 0) xs"

text \<open>A dense matrix is its list of rows; \<open>np.diag\<close> reads the main diagonal.\<close>

type_synonym matrix = "fl list list"

definition np_diag :: "matrix \<Rightarrow> fl list" where
  "np_diag U =
     map (\<lambda>i. U ! i ! i) [0 ..< min (length U) (case U of [] \<Rightarrow> 0 | r # _ \<Rightarrow> length r)]"

text \<open>
  Exceptions. \<open>ValueError\<close> and \<open>TypeError\<close> are the exceptions the modelled functions
  raise themselves; \<open>AttributeError\<close> is what a library call raises on an object of the
  wrong kind; \<open>Propagated e\<close> is an exception \<open>e\<close> that a callee outside these sources raised
  and the function let through.
\<close>

datatype 'e error = ValueError string | TypeError string | AttributeError string | Propagated 'e

section \<open>savanna/partition.py: logsqrtdet\<close>

text \<open>
  \<open>scipy.linalg.lu(K, permute_l=True)\<close> is the parameter \<open>lu\<close>: it returns the factors
  \<open>(PL, U)\<close> or raises.
\<close>

definition logsqrtdet :: "(matrix \<Rightarrow> 'e + matrix \<times> matrix) \<Rightarrow> matrix \<Rightarrow> 'e error + fl" where
  "logsqrtdet lu K =
     (case lu K of
        Inl e \<Rightarrow> Inl (Propagated e)
      | Inr (PL, U) \<Rightarrow>
          Inr (fscale (1 / 2) (np_sum (map (\<lambda>x. np_log (np_absolute x)) (np_diag U)))))"

text \<open>What \<open>scipy.linalg.lu\<close> returns for the 1 x 1 matrix \<open>[[0.0]]\<close>: \<open>PL = [[1.0]]\<close>,
  \<open>U = [[0.0]]\<close>.\<close>

definition lu_zero_1x1 :: "matrix \<Rightarrow> unit + matrix \<times> matrix" where
  "lu_zero_1x1 K = Inr ([[Fin 1]], [[Fin 0]])"

section \<open>dwave/samplers/greedy/sampler.py: SteepestDescentSolver.sample\<close>

datatype vartype = SPIN | BINARY

record 'v bqm =
  linear :: "('v \<times> fl) list"
  quadratic :: "(('v \<times> 'v) \<times> fl) list"
  offset :: fl
  vartype :: vartype

text \<open>The values a caller can pass as \<open>seed\<close>. \<open>numbers.Integral\<close> holds of \<open>int\<close> and of
  \<open>bool\<close> (\<open>True\<close> is 1, \<open>False\<close> is 0).\<close>

datatype pyval = PyNone | PyInt int | PyBool bool | PyFloat fl | PyStr string

fun isinstance_Integral :: "pyval \<Rightarrow> bool" where
  "isinstance_Integral (PyInt n) = True"
| "isinstance_Integral (PyBool b) = True"
| "isinstance_Integral v = False"

fun int_value :: "pyval \<Rightarrow> int" where
  "int_value (PyInt n) = n"
| "int_value (PyBool b) = (if b then 1 else 0)"
| "int_value v = 0"

text \<open>
  \<open>sample\<close>: the vartype conversion, the seed validation, and then the statements after
  the validation (\<open>parse_initial_states\<close> up to the assembly of the sample set), whose
  callees are outside these sources: they are the parameter \<open>descend\<close>, which gets the
  converted model, the original vartype and the arguments. \<open>change_vartype\<close> is
  \<open>bqm.change_vartype(dimod.SPIN, inplace=False)\<close>. The timing entries are left out.
\<close>

definition sample ::
  "('v bqm \<Rightarrow> 'v bqm) \<Rightarrow>
   ('v bqm \<Rightarrow> vartype \<Rightarrow> pyval \<Rightarrow> 'i \<Rightarrow> string \<Rightarrow> pyval \<Rightarrow> bool \<Rightarrow> 'e + 'r) \<Rightarrow>
   'v bqm \<Rightarrow> pyval \<Rightarrow> 'i \<Rightarrow> string \<Rightarrow> pyval \<Rightarrow> bool \<Rightarrow> 'e error + 'r" where
  "sample change_vartype descend b num_reads initial_states initial_states_generator seed
     large_sparse_opt =
     (let original_vartype = vartype b;
          b' = (if vartype b \<noteq> SPIN then change_vartype b else b)
      in if \<not> (seed = PyNone \<or> isinstance_Integral seed)
         then Inl (TypeError '''seed' should be None or a positive 32-bit integer'')
         else if isinstance_Integral seed \<and> \<not> (0 \<le> int_value seed \<and> int_value seed \<le> 2 ^ 32 - 1)
         then Inl (ValueError '''seed' should be an integer between 0 and 2**32 - 1 inclusive'')
         else (case descend b' original_vartype num_reads initial_states
                      initial_states_generator seed large_sparse_opt of
                 Inl e \<Rightarrow> Inl (Propagated e)
               | Inr r \<Rightarrow> Inr r))"

section \<open>savanna/partition.py: log_partition_bqm\<close>

subsection \<open>The objects the function works on\<close>

text \<open>
  Python passes references: the model, the coordinate map and the graph are objects in a
  store, and the function gets their addresses. An edge of a networkx multigraph is
  \<open>(u, v, key)\<close>; the attribute dictionaries of nodes and edges are records with one
  optional field per attribute name the function uses (\<open>rotation\<close> on nodes; \<open>weight\<close>,
  \<open>oriented\<close> and \<open>index\<close> on edges).
\<close>

type_synonym addr = nat

type_synonym 'v edge = "'v \<times> 'v \<times> nat"

record 'v node_attrs =
  rotation :: "'v edge list option"

record edge_attrs =
  weight :: "fl option"
  oriented :: "bool option"
  index :: "nat option"

record 'v multigraph =
  nodes :: "('v \<times> 'v node_attrs) list"
  edges :: "('v edge \<times> edge_attrs) list"

datatype 'v pyobj = BQM "'v bqm" | Pos "'v \<Rightarrow> (fl \<times> fl) option" | Graph "'v multigraph"

type_synonym 'v store = "addr \<Rightarrow> 'v pyobj option"

text \<open>A statement runs on the store and returns the new store with a value or an
  exception; \<open>bnd\<close> is sequencing, an exception ends the run.\<close>

type_synonym ('s, 'e, 'a) prog = "'s \<Rightarrow> 's \<times> ('e + 'a)"

definition return_value :: "'a \<Rightarrow> ('s, 'e, 'a) prog" where
  "return_value x s = (s, Inr x)"

definition raise_error :: "'e \<Rightarrow> ('s, 'e, 'a) prog" where
  "raise_error e s = (s, Inl e)"

definition bnd :: "('s, 'e, 'a) prog \<Rightarrow> ('a \<Rightarrow> ('s, 'e, 'b) prog) \<Rightarrow> ('s, 'e, 'b) prog" where
  "bnd m f s = (case m s of (s', Inl e) \<Rightarrow> (s', Inl e) | (s', Inr x) \<Rightarrow> f x s')"

text \<open>A call of a function outside these sources: its exception is passed on.\<close>

definition call :: "('s, 'e, 'a) prog \<Rightarrow> ('s, 'e error, 'a) prog" where
  "call m s = (case m s of (s', Inl e) \<Rightarrow> (s', Inl (Propagated e)) | (s', Inr x) \<Rightarrow> (s', Inr x))"

definition pure_result :: "'e + 'a \<Rightarrow> ('s, 'e, 'a) prog" where
  "pure_result r s = (s, r)"

subsection \<open>The networkx and dimod operations the function uses\<close>

text \<open>\<open>len(bqm)\<close>: the number of variables.\<close>

definition py_len :: "addr \<Rightarrow> ('v store, 'e error, nat) prog" where
  "py_len x s =
     (case s x of
        Some (BQM b) \<Rightarrow> (s, Inr (length (linear b)))
      | _ \<Rightarrow> (s, Inl (TypeError ''object has no len()'')))"

text \<open>The graph is undirected: \<open>(u, v, key)\<close> and \<open>(v, u, key)\<close> name the same edge.\<close>

fun same_edge :: "'v edge \<Rightarrow> 'v edge \<Rightarrow> bool" where
  "same_edge (u, v, k) (u', v', k') = (k = k' \<and> ((u = u' \<and> v = v') \<or> (u = v' \<and> v = u')))"

text \<open>The attribute a name selects, as the function that stores a value under it.\<close>

definition attr_rotation :: "'v edge list \<Rightarrow> 'v node_attrs \<Rightarrow> 'v node_attrs" where
  "attr_rotation r a = a\<lparr>rotation := Some r\<rparr>"

definition attr_oriented :: "bool \<Rightarrow> edge_attrs \<Rightarrow> edge_attrs" where
  "attr_oriented x a = a\<lparr>oriented := Some x\<rparr>"

definition attr_index :: "nat \<Rightarrow> edge_attrs \<Rightarrow> edge_attrs" where
  "attr_index i a = a\<lparr>index := Some i\<rparr>"

text \<open>
  \<open>nx.set_node_attributes(G, name=..., values=d)\<close> and \<open>nx.set_edge_attributes\<close> with a
  dictionary: for every item, the attribute of that node (edge) is set; an item whose
  node (edge) is not in the graph is skipped (the \<open>KeyError\<close> is caught).
\<close>

definition set_node_attributes ::
  "'v multigraph \<Rightarrow> ('a \<Rightarrow> 'v node_attrs \<Rightarrow> 'v node_attrs) \<Rightarrow> ('v \<times> 'a) list \<Rightarrow> 'v multigraph" where
  "set_node_attributes g name values =
     foldl (\<lambda>g (n, x). g\<lparr>nodes := map (\<lambda>(m, a). if m = n then (m, name x a) else (m, a)) (nodes g)\<rparr>)
       g values"

definition set_edge_attributes ::
  "'v multigraph \<Rightarrow> ('a \<Rightarrow> edge_attrs \<Rightarrow> edge_attrs) \<Rightarrow> ('v edge \<times> 'a) list \<Rightarrow> 'v multigraph" where
  "set_edge_attributes g name values =
     foldl (\<lambda>g (e, x). g\<lparr>edges := map (\<lambda>(f, a). if same_edge e f then (f, name x a) else (f, a)) (edges g)\<rparr>)
       g values"

text \<open>\<open>G.edges(keys=True)\<close>, \<open>G.edges[e]\<close> and \<open>G.edges[e].get('weight', 0.0)\<close>.\<close>

definition edge_keys :: "'v multigraph \<Rightarrow> 'v edge list" where
  "edge_keys g = map fst (edges g)"

definition edge_data :: "'v multigraph \<Rightarrow> 'v edge \<Rightarrow> edge_attrs option" where
  "edge_data g e = map_option snd (find (\<lambda>(f, a). same_edge e f) (edges g))"

definition get_weight :: "edge_attrs \<Rightarrow> fl" where
  "get_weight a = (case weight a of None \<Rightarrow> Fin 0 | Some w \<Rightarrow> w)"

text \<open>The weights the final sum runs over: one per edge of \<open>G.edges(keys=True)\<close>, in that
  order. The lookup \<open>G.edges[e]\<close> of an edge that was just listed always succeeds
  (\<open>edge_data_listed\<close> below).\<close>

definition edge_weights :: "'v multigraph \<Rightarrow> fl list" where
  "edge_weights g =
     map (\<lambda>e. case edge_data g e of Some a \<Rightarrow> get_weight a | None \<Rightarrow> Fin 0) (edge_keys g)"

definition with_graph :: "addr \<Rightarrow> ('v multigraph \<Rightarrow> 'a) \<Rightarrow> ('v store, 'e error, 'a) prog" where
  "with_graph G f s =
     (case s G of
        Some (Graph g) \<Rightarrow> (s, Inr (f g))
      | _ \<Rightarrow> (s, Inl (AttributeError ''not a graph'')))"

definition update_graph :: "addr \<Rightarrow> ('v multigraph \<Rightarrow> 'v multigraph) \<Rightarrow> ('v store, 'e error, unit) prog" where
  "update_graph G f s =
     (case s G of
        Some (Graph g) \<Rightarrow> (s(G \<mapsto> Graph (f g)), Inr ())
      | _ \<Rightarrow> (s, Inl (AttributeError ''not a graph'')))"

subsection \<open>The pipeline\<close>

text \<open>
  The functions \<open>log_partition_bqm\<close> imports from \<open>savanna.io.dimod\<close>, \<open>savanna.kasteleyn\<close>
  and \<open>savanna.planar\<close> are not among these sources, and \<open>scipy.linalg.lu\<close> is a library
  routine: they are parameters. Each may read and change the store, and may raise.
\<close>

record ('v, 'e) stages =
  bqm_to_multigraph :: "addr \<Rightarrow> ('v store, 'e, addr \<times> fl) prog"
  rotation_from_coordinates :: "addr \<Rightarrow> addr \<Rightarrow> ('v store, 'e, ('v \<times> 'v edge list) list) prog"
  plane_triangulate :: "addr \<Rightarrow> ('v store, 'e, unit) prog"
  odd_edge_orientation :: "addr \<Rightarrow> ('v store, 'e, ('v edge \<times> bool) list) prog"
  kasteleyn :: "addr \<Rightarrow> ('v store, 'e, matrix) prog"
  lu :: "matrix \<Rightarrow> 'e + matrix \<times> matrix"

definition log_partition_bqm :: "('v, 'e) stages \<Rightarrow> addr \<Rightarrow> addr \<Rightarrow> ('v store, 'e error, fl) prog" where
  "log_partition_bqm st bqm pos =
     bnd (py_len bqm) (\<lambda>n.
       if n < 3 then raise_error (ValueError ''bqm must have at least three variables'')
       else
         bnd (call (bqm_to_multigraph st bqm)) (\<lambda>(G, off).
         bnd (call (rotation_from_coordinates st G pos)) (\<lambda>r.
         bnd (update_graph G (\<lambda>g. set_node_attributes g attr_rotation r)) (\<lambda>_.
         bnd (call (plane_triangulate st G)) (\<lambda>_.
         bnd (call (odd_edge_orientation st G)) (\<lambda>orientation.
         bnd (update_graph G (\<lambda>g. set_edge_attributes g attr_oriented orientation)) (\<lambda>_.
         bnd (with_graph G edge_keys) (\<lambda>es.
         bnd (update_graph G (\<lambda>g. set_edge_attributes g attr_index (zip es [0 ..< length es]))) (\<lambda>_.
         bnd (call (kasteleyn st G)) (\<lambda>K.
         bnd (pure_result (logsqrtdet (lu st) K)) (\<lambda>lsd.
         bnd (with_graph G edge_weights) (\<lambda>ws.
         return_value (fsub (fsub lsd (py_sum ws)) off)))))))))))))"

section \<open>Inputs of the examples\<close>

text \<open>Inputs of the examples below: a model in SPIN form, a vartype conversion and a
  stand-in for the descent that returns the seed it was given.\<close>

definition example_bqm :: "string bqm" where
  "example_bqm = \<lparr>linear = [(''a'', Fin 0), (''b'', Fin 0)],
     quadratic = [((''a'', ''b''), Fin 1)], offset = Fin 0, vartype = SPIN\<rparr>"

definition example_change_vartype :: "string bqm \<Rightarrow> string bqm" where
  "example_change_vartype b = b\<lparr>vartype := SPIN\<rparr>"

definition example_descend ::
  "string bqm \<Rightarrow> vartype \<Rightarrow> pyval \<Rightarrow> unit \<Rightarrow> string \<Rightarrow> pyval \<Rightarrow> bool \<Rightarrow> unit + pyval" where
  "example_descend b v num_reads initial_states g seed large_sparse_opt = Inr seed"

text \<open>An LU factorization with partial pivoting of the skew-symmetric 3 x 3 matrix
  \<open>[[0, 1, -1], [-1, 0, 1], [1, -1, 0]]\<close>: the last pivot is zero.\<close>

definition example_K3 :: matrix where
  "example_K3 = [[Fin 0, Fin 1, Fin (- 1)], [Fin (- 1), Fin 0, Fin 1], [Fin 1, Fin (- 1), Fin 0]]"

definition example_PL3 :: matrix where
  "example_PL3 = [[Fin 0, Fin 1, Fin 0], [Fin 1, Fin 0, Fin 0], [Fin (- 1), Fin (- 1), Fin 1]]"

definition example_U3 :: matrix where
  "example_U3 = [[Fin (- 1), Fin 0, Fin 1], [Fin 0, Fin 1, Fin (- 1)], [Fin 0, Fin 0, Fin 0]]"

definition example_lu3 :: "matrix \<Rightarrow> unit + matrix \<times> matrix" where
  "example_lu3 K = Inr (example_PL3, example_U3)"

section \<open>Frame conditions and example runs of the pipeline\<close>

subsection \<open>Definitions for the proofs about the pipeline\<close>

text \<open>The body of \<open>log_partition_bqm\<close> after the call of the multigraph builder.\<close>

definition after_builder :: "('v, 'e) stages \<Rightarrow> addr \<Rightarrow> addr \<Rightarrow> fl \<Rightarrow> ('v store, 'e error, fl) prog" where
  "after_builder st pos G off = 
         bnd (call (rotation_from_coordinates st G pos)) (\<lambda>r.
         bnd (update_graph G (\<lambda>g. set_node_attributes g attr_rotation r)) (\<lambda>_.
         bnd (call (plane_triangulate st G)) (\<lambda>_.
         bnd (call (odd_edge_orientation st G)) (\<lambda>orientation.
         bnd (update_graph G (\<lambda>g. set_edge_attributes g attr_oriented orientation)) (\<lambda>_.
         bnd (with_graph G edge_keys) (\<lambda>es.
         bnd (update_graph G (\<lambda>g. set_edge_attributes g attr_index (zip es [0 ..< length es]))) (\<lambda>_.
         bnd (call (kasteleyn st G)) (\<lambda>K.
         bnd (pure_result (logsqrtdet (lu st) K)) (\<lambda>lsd.
         bnd (with_graph G edge_weights) (\<lambda>ws.
         return_value (fsub (fsub lsd (py_sum ws)) off)))))))))))"

text \<open>\<open>keeps A m\<close>: the statement \<open>m\<close> leaves every object of the store whose address is in
  \<open>A\<close> as it was. \<open>no_value_error m\<close>: \<open>m\<close> never ends in a \<open>ValueError\<close> of the function's
  own.\<close>

definition keeps :: "addr set \<Rightarrow> ('v store, 'e, 'a) prog \<Rightarrow> bool" where
  "keeps A m = (\<forall>s s' r. m s = (s', r) \<longrightarrow> (\<forall>a\<in>dom s. a \<in> A \<longrightarrow> s' a = s a))"

definition no_value_error :: "('s, 'e error, 'a) prog \<Rightarrow> bool" where
  "no_value_error m = (\<forall>s msg. snd (m s) \<noteq> Inl (ValueError msg))"

text \<open>
  Modelled from the spec: the stage functions \<open>bqm_to_multigraph\<close>,
  \<open>rotation_from_coordinates\<close>, \<open>plane_triangulate\<close>, \<open>odd_edge_orientation\<close> and
  \<open>kasteleyn\<close> are missing from the sources. The spec says that the builder "converts the
  energy model into a weighted multigraph plus a scalar constant offset", that "each
  stage consumes the mutated graph produced by the previous stage" and that the graph
  "is mutated in place by each stage". So: the builder changes no object that is in the
  store and returns the address of a new one; every later stage changes no object but
  the graph it is given.
\<close>

definition stages_frame :: "('v, 'e) stages \<Rightarrow> bool" where
  "stages_frame st =
     ((\<forall>bqm s s' r. bqm_to_multigraph st bqm s = (s', r) \<longrightarrow>
          (\<forall>a\<in>dom s. s' a = s a) \<and> (\<forall>G off. r = Inr (G, off) \<longrightarrow> G \<notin> dom s)) \<and>
      (\<forall>G pos s s' r. rotation_from_coordinates st G pos s = (s', r) \<longrightarrow>
          (\<forall>a\<in>dom s. a \<noteq> G \<longrightarrow> s' a = s a)) \<and>
      (\<forall>G s s' r. plane_triangulate st G s = (s', r) \<longrightarrow> (\<forall>a\<in>dom s. a \<noteq> G \<longrightarrow> s' a = s a)) \<and>
      (\<forall>G s s' r. odd_edge_orientation st G s = (s', r) \<longrightarrow> (\<forall>a\<in>dom s. a \<noteq> G \<longrightarrow> s' a = s a)) \<and>
      (\<forall>G s s' r. kasteleyn st G s = (s', r) \<longrightarrow> (\<forall>a\<in>dom s. a \<noteq> G \<longrightarrow> s' a = s a)))"

subsection \<open>A run on a triangle\<close>

text \<open>The three-variable model of the test, with stand-ins for the stage functions
  (they return fixed results for this model) to run the pipeline on.\<close>

definition example_triangle :: "string bqm" where
  "example_triangle = \<lparr>linear = [(''a'', Fin 0), (''b'', Fin 0), (''c'', Fin 0)],
     quadratic = [((''a'', ''b''), Fin 1), ((''b'', ''c''), Fin 1), ((''c'', ''a''), Fin 1)],
     offset = Fin 0, vartype = SPIN\<rparr>"

definition example_pos :: "string \<Rightarrow> (fl \<times> fl) option" where
  "example_pos = [''a'' \<mapsto> (Fin 0, Fin 0), ''b'' \<mapsto> (Fin 1, Fin 0), ''c'' \<mapsto> (Fin 0, Fin 1)]"

definition example_store :: "string store" where
  "example_store = [0 \<mapsto> BQM example_triangle, 1 \<mapsto> Pos example_pos]"

definition example_small_store :: "string store" where
  "example_small_store = [0 \<mapsto> BQM example_bqm, 1 \<mapsto> Pos example_pos]"

definition no_attrs :: edge_attrs where
  "no_attrs = \<lparr>weight = None, oriented = None, index = None\<rparr>"

definition example_graph :: "string multigraph" where
  "example_graph =
     \<lparr>nodes = [(''a'', \<lparr>rotation = None\<rparr>), (''b'', \<lparr>rotation = None\<rparr>), (''c'', \<lparr>rotation = None\<rparr>)],
      edges = [((''a'', ''b'', 0), no_attrs\<lparr>weight := Some (Fin 1)\<rparr>),
               ((''b'', ''c'', 0), no_attrs\<lparr>weight := Some (Fin 1)\<rparr>),
               ((''c'', ''a'', 0), no_attrs\<lparr>weight := Some (Fin 1)\<rparr>)]\<rparr>"

definition example_stages :: "(string, unit) stages" where
  "example_stages =
     \<lparr>bqm_to_multigraph = (\<lambda>bqm s.
        if s 2 = None then (s(2 \<mapsto> Graph example_graph), Inr (2, Fin 0)) else (s, Inl ())),
      rotation_from_coordinates = (\<lambda>G pos s.
        (s, Inr [(''a'', [(''a'', ''b'', 0), (''a'', ''c'', 0)]),
                 (''b'', [(''b'', ''c'', 0), (''b'', ''a'', 0)]),
                 (''c'', [(''c'', ''a'', 0), (''c'', ''b'', 0)])])),
      plane_triangulate = (\<lambda>G s. (s, Inr ())),
      odd_edge_orientation = (\<lambda>G s.
        (s, Inr [((''a'', ''b'', 0), True), ((''b'', ''c'', 0), True), ((''a'', ''c'', 0), False)])),
      kasteleyn = (\<lambda>G s. (s, Inr [[Fin 0, Fin 1], [Fin (- 1), Fin 0]])),
      lu = (\<lambda>K. Inr ([[Fin 0, Fin 1], [Fin 1, Fin 0]], [[Fin (- 1), Fin 0], [Fin 0, Fin 1]]))\<rparr>"

definition example_final_graph :: "string multigraph" where
  "example_final_graph =
     \<lparr>nodes = [(''a'', \<lparr>rotation = Some [(''a'', ''b'', 0), (''a'', ''c'', 0)]\<rparr>),
               (''b'', \<lparr>rotation = Some [(''b'', ''c'', 0), (''b'', ''a'', 0)]\<rparr>),
               (''c'', \<lparr>rotation = Some [(''c'', ''a'', 0), (''c'', ''b'', 0)]\<rparr>)],
      edges = [((''a'', ''b'', 0), \<lparr>weight = Some (Fin 1), oriented = Some True, index = Some 0\<rparr>),
               ((''b'', ''c'', 0), \<lparr>weight = Some (Fin 1), oriented = Some True, index = Some 1\<rparr>),
               ((''c'', ''a'', 0), \<lparr>weight = Some (Fin 1), oriented = Some False, index = Some 2\<rparr>)]\<rparr>"

section \<open>The Kasteleyn matrix builder\<close>

text \<open>
  Modelled from the spec: \<open>savanna.kasteleyn.kasteleyn\<close> is missing from the sources.
  Section 4.5 of the spec: the input is an oriented, weighted graph and a vertex
  ordering; "for every edge with weight w oriented u \<rightarrow> v, set K[u][v] += w,
  K[v][u] -= w (accumulate for parallel edges/multi-edges rather than overwrite)"; the
  output is a dense n x n matrix, which starts as zeros.
\<close>

text \<open>The row and column of a vertex: its position in the vertex ordering.\<close>

definition vertex_index :: "'v list \<Rightarrow> 'v \<Rightarrow> nat option" where
  "vertex_index order v =
     (if v \<in> set order then Some (length (takeWhile (\<lambda>x. x \<noteq> v) order)) else None)"

text \<open>\<open>K[i][j] += w\<close> and \<open>K[i][j] -= w\<close>.\<close>

definition add_entry :: "matrix \<Rightarrow> nat \<Rightarrow> nat \<Rightarrow> fl \<Rightarrow> matrix" where
  "add_entry K i j w = K[i := (K ! i)[j := fadd (K ! i ! j) w]]"

definition sub_entry :: "matrix \<Rightarrow> nat \<Rightarrow> nat \<Rightarrow> fl \<Rightarrow> matrix" where
  "sub_entry K i j w = K[i := (K ! i)[j := fsub (K ! i ! j) w]]"

text \<open>One edge: oriented \<open>u \<rightarrow> v\<close> when its flag is true, \<open>v \<rightarrow> u\<close> when it is false; an edge
  that carries no weight counts \<open>0.0\<close>. An edge without orientation or a vertex outside
  the ordering is a violated precondition.\<close>

definition kasteleyn_edge :: "'v list \<Rightarrow> matrix \<Rightarrow> 'v edge \<times> edge_attrs \<Rightarrow> unit error + matrix" where
  "kasteleyn_edge order K ea =
     (case ea of ((u, v, k), a) \<Rightarrow>
        (case oriented a of
           None \<Rightarrow> Inl (ValueError ''edge without orientation'')
         | Some d \<Rightarrow>
             (case (vertex_index order (if d then u else v), vertex_index order (if d then v else u)) of
                (Some t, Some h) \<Rightarrow> Inr (sub_entry (add_entry K t h (get_weight a)) h t (get_weight a))
              | _ \<Rightarrow> Inl (ValueError ''vertex without index''))))"

fun kasteleyn_edges :: "'v list \<Rightarrow> matrix \<Rightarrow> ('v edge \<times> edge_attrs) list \<Rightarrow> unit error + matrix" where
  "kasteleyn_edges order K [] = Inr K"
| "kasteleyn_edges order K (ea # es) =
     (case kasteleyn_edge order K ea of
        Inl e \<Rightarrow> Inl e
      | Inr K' \<Rightarrow> kasteleyn_edges order K' es)"

text \<open>Modelled from the spec: the builder of section 4.5 (the function itself is missing from
  the sources); the accumulation over all edges of the graph, from the zero matrix.\<close>

definition kasteleyn_spec :: "'v list \<Rightarrow> 'v multigraph \<Rightarrow> unit error + matrix" where
  "kasteleyn_spec order g =
     kasteleyn_edges order (replicate (length order) (replicate (length order) (Fin 0))) (edges g)"

text \<open>The invariant of the accumulation: an \<open>n x n\<close> matrix of finite entries with
  \<open>K[j][i]\<close> the negative of \<open>K[i][j]\<close>.\<close>

definition skew :: "nat \<Rightarrow> matrix \<Rightarrow> bool" where
  "skew n K = (length K = n \<and> (\<forall>i<n. length (K ! i) = n) \<and>
     (\<forall>i<n. \<forall>j<n. \<exists>x. K ! i ! j = Fin x \<and> K ! j ! i = Fin (- x)))"

text \<open>A graph with two parallel edges of opposite orientation and a self-loop.\<close>

definition example_parallel :: "string multigraph" where
  "example_parallel =
     \<lparr>nodes = [(''a'', \<lparr>rotation = None\<rparr>), (''b'', \<lparr>rotation = None\<rparr>)],
      edges = [((''a'', ''b'', 0), \<lparr>weight = Some (Fin 2), oriented = Some True, index = Some 0\<rparr>),
               ((''a'', ''b'', 1), \<lparr>weight = Some (Fin 3), oriented = Some False, index = Some 1\<rparr>),
               ((''a'', ''a'', 0), \<lparr>weight = Some (Fin 5), oriented = Some True, index = Some 2\<rparr>)]\<rparr>"

section \<open>The planar triangulator\<close>

text \<open>
  Modelled from the spec: \<open>savanna.planar.plane_triangulate\<close> is missing from the sources.
  Section 4.2 of the spec: the triangulator "walks each face of the embedding (derived by
  following, at each edge, the next edge in the rotation system of its head vertex)" and,
  "for any face with more than three boundary edges, adds chords from one fixed vertex of
  the face to all non-adjacent vertices on that face's boundary", each chord of weight 0,
  and extends the rotation system as the edges are inserted.
\<close>

text \<open>The rotation of a vertex: the cyclic sequence of the edges at it, each written from
  that vertex, \<open>(v, u, key)\<close>. An edge followed from \<open>u\<close> to \<open>v\<close> is \<open>(u, v, key)\<close>.\<close>

definition node_rotation :: "'v multigraph \<Rightarrow> 'v \<Rightarrow> 'v edge list option" where
  "node_rotation g v = (case map_of (nodes g) v of None \<Rightarrow> None | Some a \<Rightarrow> rotation a)"

definition rotation_index :: "'v edge list \<Rightarrow> 'v edge \<Rightarrow> nat option" where
  "rotation_index rot d =
     (if d \<in> set rot then Some (length (takeWhile (\<lambda>x. x \<noteq> d) rot)) else None)"

text \<open>Face tracing: from an edge followed from \<open>u\<close> to \<open>v\<close>, the next edge of the face is the
  entry after the reverse edge in the rotation of \<open>v\<close>, with wraparound.\<close>

definition next_dart :: "'v multigraph \<Rightarrow> 'v edge \<Rightarrow> 'v edge option" where
  "next_dart g d =
     (case d of (u, v, k) \<Rightarrow>
        (case node_rotation g v of
           None \<Rightarrow> None
         | Some rot \<Rightarrow>
             (case rotation_index rot (v, u, k) of
                None \<Rightarrow> None
              | Some p \<Rightarrow> Some (rot ! ((p + 1) mod length rot)))))"

text \<open>The face of an edge: the edges met until the walk is back at the start. A face has
  no more edges than the rotations hold, so that many steps are the fuel; a walk that is
  not back by then, or meets a vertex without rotation or a reverse edge that is in no
  rotation, has no result: the rotation system is not valid.\<close>

fun trace_face :: "'v multigraph \<Rightarrow> 'v edge \<Rightarrow> 'v edge \<Rightarrow> nat \<Rightarrow> 'v edge list option" where
  "trace_face g start d 0 = None"
| "trace_face g start d (Suc n) =
     (case next_dart g d of
        None \<Rightarrow> None
      | Some d' \<Rightarrow> if d' = start then Some [d] else map_option ((#) d) (trace_face g start d' n))"

definition darts :: "'v multigraph \<Rightarrow> 'v edge list" where
  "darts g = concat (map (\<lambda>(v, a). case rotation a of None \<Rightarrow> [] | Some rot \<Rightarrow> rot) (nodes g))"

definition face_of :: "'v multigraph \<Rightarrow> 'v edge \<Rightarrow> 'v edge list option" where
  "face_of g d = trace_face g d d (length (darts g))"

text \<open>All faces: one walk from every edge that is not on a face found before.\<close>

fun faces_from :: "'v multigraph \<Rightarrow> 'v edge list \<Rightarrow> 'v edge list list \<Rightarrow> 'v edge list list option" where
  "faces_from g [] fs = Some fs"
| "faces_from g (d # ds) fs =
     (if \<exists>f\<in>set fs. d \<in> set f then faces_from g ds fs
      else (case face_of g d of
              None \<Rightarrow> None
            | Some f \<Rightarrow> faces_from g ds (fs @ [f])))"

definition faces :: "'v multigraph \<Rightarrow> 'v edge list list option" where
  "faces g = faces_from g (darts g) []"

text \<open>A chord from the first vertex \<open>v0\<close> of a face to the vertex \<open>vi\<close> on it: a new edge of
  weight 0 with a key not in use between the two, put into both rotations inside the
  face (after the reverse of the face's edge that arrives at the vertex).\<close>

fun insert_after :: "'a list \<Rightarrow> 'a \<Rightarrow> 'a \<Rightarrow> 'a list" where
  "insert_after [] x y = [y]"
| "insert_after (z # zs) x y = (if z = x then z # y # zs else z # insert_after zs x y)"

definition new_edge_key :: "'v multigraph \<Rightarrow> 'v \<Rightarrow> 'v \<Rightarrow> nat" where
  "new_edge_key g u v =
     (case filter (\<lambda>((a, b, k), x). (a = u \<and> b = v) \<or> (a = v \<and> b = u)) (edges g) of
        [] \<Rightarrow> 0
      | es \<Rightarrow> Suc (fold (\<lambda>((a, b, k), x) m. max k m) es 0))"

definition reverse_dart :: "'v edge \<Rightarrow> 'v edge" where
  "reverse_dart d = (case d of (u, v, k) \<Rightarrow> (v, u, k))"

definition add_chord :: "'v multigraph \<Rightarrow> 'v \<Rightarrow> 'v edge \<Rightarrow> 'v \<Rightarrow> 'v edge \<Rightarrow> 'v multigraph" where
  "add_chord g v0 anchor0 vi anchori =
     (let k = new_edge_key g v0 vi in
      g\<lparr>nodes := map (\<lambda>(v, a).
              if v = v0 then (v, a\<lparr>rotation := map_option (\<lambda>r. insert_after r anchor0 (v0, vi, k)) (rotation a)\<rparr>)
              else if v = vi then (v, a\<lparr>rotation := map_option (\<lambda>r. insert_after r anchori (vi, v0, k)) (rotation a)\<rparr>)
              else (v, a)) (nodes g),
        edges := edges g @ [((v0, vi, k), \<lparr>weight = Some (Fin 0), oriented = None, index = None\<rparr>)]\<rparr>)"

text \<open>A face with more than three edges gets the chords from its first vertex to the
  vertices that are not next to it on the face; any other face is left as it is.\<close>

definition triangulate_face :: "'v multigraph \<Rightarrow> 'v edge list \<Rightarrow> 'v multigraph" where
  "triangulate_face g f =
     (if 3 < length f
      then foldl (\<lambda>g i. add_chord g (fst (f ! 0)) (reverse_dart (last f))
                          (fst (f ! i)) (reverse_dart (f ! (i - 1))))
             g [2 ..< length f - 1]
      else g)"

text \<open>Modelled from the spec: the triangulator of section 4.2 (the function itself is
  missing from the sources); every face of the embedding is visited once.\<close>

definition plane_triangulate_spec :: "'v multigraph \<Rightarrow> unit error + 'v multigraph" where
  "plane_triangulate_spec g =
     (case faces g of
        None \<Rightarrow> Inl (ValueError ''invalid rotation system'')
      | Some fs \<Rightarrow> Inr (foldl triangulate_face g fs))"

text \<open>A square with its rotation system, and what the triangulator makes of it: one
  chord in the inner face and one in the outer face.\<close>

definition example_square :: "string multigraph" where
  "example_square =
     \<lparr>nodes = [(''a'', \<lparr>rotation = Some [(''a'', ''b'', 0), (''a'', ''d'', 0)]\<rparr>),
               (''b'', \<lparr>rotation = Some [(''b'', ''c'', 0), (''b'', ''a'', 0)]\<rparr>),
               (''c'', \<lparr>rotation = Some [(''c'', ''d'', 0), (''c'', ''b'', 0)]\<rparr>),
               (''d'', \<lparr>rotation = Some [(''d'', ''a'', 0), (''d'', ''c'', 0)]\<rparr>)],
      edges = [((''a'', ''b'', 0), \<lparr>weight = Some (Fin 1), oriented = None, index = None\<rparr>),
               ((''b'', ''c'', 0), \<lparr>weight = Some (Fin 1), oriented = None, index = None\<rparr>),
               ((''c'', ''d'', 0), \<lparr>weight = Some (Fin 1), oriented = None, index = None\<rparr>),
               ((''d'', ''a'', 0), \<lparr>weight = Some (Fin 1), oriented = None, index = None\<rparr>)]\<rparr>"

definition example_square_triangulated :: "string multigraph" where
  "example_square_triangulated =
     \<lparr>nodes = [(''a'', \<lparr>rotation = Some [(''a'', ''b'', 0), (''a'', ''c'', 1), (''a'', ''d'', 0), (''a'', ''c'', 0)]\<rparr>),
               (''b'', \<lparr>rotation = Some [(''b'', ''c'', 0), (''b'', ''a'', 0)]\<rparr>),
               (''c'', \<lparr>rotation = Some [(''c'', ''d'', 0), (''c'', ''a'', 1), (''c'', ''b'', 0), (''c'', ''a'', 0)]\<rparr>),
               (''d'', \<lparr>rotation = Some [(''d'', ''a'', 0), (''d'', ''c'', 0)]\<rparr>)],
      edges = [((''a'', ''b'', 0), \<lparr>weight = Some (Fin 1), oriented = None, index = None\<rparr>),
               ((''b'', ''c'', 0), \<lparr>weight = Some (Fin 1), oriented = None, index = None\<rparr>),
               ((''c'', ''d'', 0), \<lparr>weight = Some (Fin 1), oriented = None, index = None\<rparr>),
               ((''d'', ''a'', 0), \<lparr>weight = Some (Fin 1), oriented = None, index = None\<rparr>),
               ((''a'', ''c'', 0), \<lparr>weight = Some (Fin 0), oriented = None, index = None\<rparr>),
               ((''a'', ''c'', 1), \<lparr>weight = Some (Fin 0), oriented = None, index = None\<rparr>)]\<rparr>"

section \<open>Determinants and exact factorizations\<close>














section \<open>Sums of floats with special values\<close>

lemma fadd_MInf_left: "x \<noteq> PInf \<Longrightarrow> x \<noteq> NaN \<Longrightarrow> fadd MInf x = MInf"
  by (cases x) simp_all

lemma np_log_abs_finite:
  "is_finite x \<Longrightarrow> np_log (np_absolute x) \<noteq> PInf \<and> np_log (np_absolute x) \<noteq> NaN"
  by (cases x) simp_all

lemma foldl_fadd_MInf_acc:
  "\<forall>y\<in>set ys. y \<noteq> PInf \<and> y \<noteq> NaN \<Longrightarrow> foldl fadd MInf ys = MInf"
  by (induction ys) (simp_all add: fadd_MInf_left)

lemma foldl_fadd_MInf_mem:
  "acc \<noteq> PInf \<Longrightarrow> acc \<noteq> NaN \<Longrightarrow> \<forall>y\<in>set ys. y \<noteq> PInf \<and> y \<noteq> NaN \<Longrightarrow> MInf \<in> set ys \<Longrightarrow>
   foldl fadd acc ys = MInf"
proof (induction ys arbitrary: acc)
  case Nil
  then show ?case by simp
next
  case (Cons y ys)
  have step: "fadd acc y \<noteq> PInf \<and> fadd acc y \<noteq> NaN"
    using Cons.prems by (cases acc; cases y) simp_all
  show ?case
  proof (cases "y = MInf")
    case True
    then have "fadd acc y = MInf" using Cons.prems by (cases acc) simp_all
    then show ?thesis using Cons.prems by (simp add: foldl_fadd_MInf_acc)
  next
    case False
    then have "MInf \<in> set ys" using Cons.prems by simp
    then show ?thesis using Cons step by simp
  qed
qed

section \<open>The Pfaffian evaluator on a singular matrix\<close>

text \<open>
  Claim C2, as the code has it. \<open>logsqrtdet\<close> has no check of the pivots and raises nothing
  of its own: whenever the factorization returns factors \<open>(PL, U)\<close> it returns a float,
  and when the diagonal of \<open>U\<close> is finite with an entry that is exactly zero, that float
  is \<open>-inf\<close>.
\<close>

theorem logsqrtdet_zero_pivot:
  assumes "factor K = Inr (PL, U)"
  shows "(\<exists>x. logsqrtdet factor K = Inr x) \<and>
         ((\<forall>x\<in>set (np_diag U). is_finite x) \<and> Fin 0 \<in> set (np_diag U) \<longrightarrow>
            logsqrtdet factor K = Inr MInf)"
proof (intro conjI impI)
  show "\<exists>x. logsqrtdet factor K = Inr x"
    using assms by (simp add: logsqrtdet_def)
next
  assume h: "(\<forall>x\<in>set (np_diag U). is_finite x) \<and> Fin 0 \<in> set (np_diag U)"
  let ?ls = "map (\<lambda>x. np_log (np_absolute x)) (np_diag U)"
  have ok: "\<forall>y\<in>set ?ls. y \<noteq> PInf \<and> y \<noteq> NaN"
    using h np_log_abs_finite by auto
  have "np_log (np_absolute (Fin 0)) \<in> set ?ls"
    using h by (metis (no_types, lifting) image_eqI list.set_map)
  then have "MInf \<in> set ?ls" by simp
  then have "np_sum ?ls = MInf"
    unfolding np_sum_def using ok by (intro foldl_fadd_MInf_mem) simp_all
  then show "logsqrtdet factor K = Inr MInf"
    using assms by (simp add: logsqrtdet_def)
qed

text \<open>The theorem at the odd-order skew-symmetric matrix \<open>example_K3\<close>: the result is
  \<open>-inf\<close>.\<close>

theorem logsqrtdet_zero_pivot_witness:
  "example_lu3 example_K3 = Inr (example_PL3, example_U3) \<and>
   (\<exists>x. logsqrtdet example_lu3 example_K3 = Inr x) \<and>
   logsqrtdet example_lu3 example_K3 = Inr MInf"
  using logsqrtdet_zero_pivot [of example_lu3 example_K3 example_PL3 example_U3]
  by (simp add: example_lu3_def example_U3_def np_diag_def upt_rec)

text \<open>Claim C2 as the specification states it fails: on the singular matrix \<open>[[0.0]]\<close>
  (odd order, skew-symmetric) the evaluator returns \<open>-inf\<close>; it does not raise.\<close>

theorem logsqrtdet_singular_counterexample:
  "logsqrtdet lu_zero_1x1 [[Fin 0]] = Inr MInf"
  by (simp add: logsqrtdet_def lu_zero_1x1_def np_diag_def np_sum_def)

section \<open>Seed validation of the steepest-descent sampler\<close>

text \<open>
  Claim C10. \<open>sample\<close> raises \<open>TypeError\<close> when the seed is neither \<open>None\<close> nor an
  integer, raises \<open>ValueError\<close> when it is an integer below 0 or above \<open>2^32 - 1\<close>, and
  otherwise accepts it: the validation raises nothing and the descent runs with that
  seed, so the result is the descent's result (an exception of the descent is passed on
  as it is).
\<close>

theorem sample_seed_validation:
  "(\<not> (seed = PyNone \<or> isinstance_Integral seed) \<longrightarrow>
      (\<exists>msg. sample cv d b nr ist g seed lso = Inl (TypeError msg))) \<and>
   (isinstance_Integral seed \<and> (int_value seed < 0 \<or> 2 ^ 32 - 1 < int_value seed) \<longrightarrow>
      (\<exists>msg. sample cv d b nr ist g seed lso = Inl (ValueError msg))) \<and>
   (seed = PyNone \<or> (isinstance_Integral seed \<and> 0 \<le> int_value seed \<and> int_value seed \<le> 2 ^ 32 - 1) \<longrightarrow>
      sample cv d b nr ist g seed lso =
        (case d (if vartype b \<noteq> SPIN then cv b else b) (vartype b) nr ist g seed lso of
           Inl e \<Rightarrow> Inl (Propagated e) | Inr r \<Rightarrow> Inr r))"
  by (auto simp: sample_def Let_def)

text \<open>The theorem at a string seed, at the integers \<open>-1\<close> and \<open>2^32\<close>, and at the accepted
  seeds \<open>None\<close>, \<open>0\<close>, \<open>2^32 - 1\<close> and \<open>True\<close>.\<close>

theorem sample_seed_validation_witness:
  "(\<exists>msg. sample example_change_vartype example_descend example_bqm PyNone () ''random''
      (PyStr ''12'') False = Inl (TypeError msg)) \<and>
   (\<exists>msg. sample example_change_vartype example_descend example_bqm PyNone () ''random''
      (PyInt (- 1)) False = Inl (ValueError msg)) \<and>
   (\<exists>msg. sample example_change_vartype example_descend example_bqm PyNone () ''random''
      (PyInt 4294967296) False = Inl (ValueError msg)) \<and>
   sample example_change_vartype example_descend example_bqm PyNone () ''random''
      PyNone False = Inr PyNone \<and>
   sample example_change_vartype example_descend example_bqm PyNone () ''random''
      (PyInt 0) False = Inr (PyInt 0) \<and>
   sample example_change_vartype example_descend example_bqm PyNone () ''random''
      (PyInt 4294967295) False = Inr (PyInt 4294967295) \<and>
   sample example_change_vartype example_descend example_bqm PyNone () ''random''
      (PyBool True) False = Inr (PyBool True)"
  using sample_seed_validation [of "PyStr ''12''" example_change_vartype example_descend
      example_bqm PyNone "()" "''random''" False]
    sample_seed_validation [of "PyInt (- 1)" example_change_vartype example_descend
      example_bqm PyNone "()" "''random''" False]
    sample_seed_validation [of "PyInt 4294967296" example_change_vartype example_descend
      example_bqm PyNone "()" "''random''" False]
    sample_seed_validation [of PyNone example_change_vartype example_descend
      example_bqm PyNone "()" "''random''" False]
    sample_seed_validation [of "PyInt 0" example_change_vartype example_descend
      example_bqm PyNone "()" "''random''" False]
    sample_seed_validation [of "PyInt 4294967295" example_change_vartype example_descend
      example_bqm PyNone "()" "''random''" False]
    sample_seed_validation [of "PyBool True" example_change_vartype example_descend
      example_bqm PyNone "()" "''random''" False]
  by (simp add: example_descend_def)

section \<open>The result assembler\<close>

lemma edge_data_listed:
  assumes "(e, a) \<in> set (edges g)"
  shows "edge_data g e \<noteq> None"
proof -
  obtain u v k where e: "e = (u, v, k)" by (cases e)
  have "((u, v, k), a) \<in> set (edges g) \<and> same_edge e (u, v, k)"
    using assms e by simp
  then show ?thesis
    by (auto simp: edge_data_def find_None_iff)
qed

lemma log_partition_bqm_unfold:
  "log_partition_bqm st bqm pos =
     bnd (py_len bqm) (\<lambda>n.
       if n < 3 then raise_error (ValueError ''bqm must have at least three variables'')
       else bnd (call (bqm_to_multigraph st bqm)) (\<lambda>(G, off). after_builder st pos G off))"
  unfolding log_partition_bqm_def after_builder_def ..

lemma example_rotated:
  "set_node_attributes example_graph attr_rotation
     [(''a'', [(''a'', ''b'', 0), (''a'', ''c'', 0)]),
      (''b'', [(''b'', ''c'', 0), (''b'', ''a'', 0)]),
      (''c'', [(''c'', ''a'', 0), (''c'', ''b'', 0)])] =
   example_graph\<lparr>nodes := nodes example_final_graph\<rparr>"
  by (simp add: set_node_attributes_def example_graph_def example_final_graph_def attr_rotation_def)

lemma example_oriented_indexed:
  "set_edge_attributes
     (set_edge_attributes (example_graph\<lparr>nodes := nodes example_final_graph\<rparr>) attr_oriented
        [((''a'', ''b'', 0), True), ((''b'', ''c'', 0), True), ((''a'', ''c'', 0), False)])
     attr_index
     (zip (edge_keys (set_edge_attributes (example_graph\<lparr>nodes := nodes example_final_graph\<rparr>) attr_oriented
        [((''a'', ''b'', 0), True), ((''b'', ''c'', 0), True), ((''a'', ''c'', 0), False)]))
       [0 ..< length (edge_keys (set_edge_attributes (example_graph\<lparr>nodes := nodes example_final_graph\<rparr>) attr_oriented
        [((''a'', ''b'', 0), True), ((''b'', ''c'', 0), True), ((''a'', ''c'', 0), False)]))]) =
   example_final_graph"
  by (simp add: set_edge_attributes_def example_graph_def example_final_graph_def attr_oriented_def
      attr_index_def edge_keys_def no_attrs_def upt_rec)

lemma example_weights: "py_sum (edge_weights example_final_graph) = Fin 3"
  by (simp add: py_sum_def edge_weights_def edge_keys_def edge_data_def get_weight_def
      example_final_graph_def)

lemma example_lsd:
  "logsqrtdet (lu example_stages) [[Fin 0, Fin 1], [Fin (- 1), Fin 0]] = Inr (Fin 0)"
  by (simp add: logsqrtdet_def example_stages_def np_diag_def np_sum_def upt_rec)

text \<open>
  Claim C1. For a model with at least three variables, when every stage returns, the
  result is \<open>logsqrtdet(K)\<close> minus the sum of the \<open>weight\<close> attributes of the edges of the
  graph as it is at the end (triangulated, oriented and indexed; a missing weight counts
  \<open>0.0\<close>) minus the offset the builder returned. The hypotheses follow the run: each
  names the store a stage is called on and what it returns.
\<close>

theorem log_partition_bqm_value:
  assumes "s bqm = Some (BQM b)" and "3 \<le> length (linear b)"
    and "bqm_to_multigraph st bqm s = (s1, Inr (G, off))"
    and "rotation_from_coordinates st G pos s1 = (s2, Inr r)"
    and "s2 G = Some (Graph g2)"
    and "plane_triangulate st G (s2(G \<mapsto> Graph (set_node_attributes g2 attr_rotation r))) = (s3, Inr ())"
    and "odd_edge_orientation st G s3 = (s4, Inr orientation)"
    and "s4 G = Some (Graph g4)"
    and "g5 = set_edge_attributes g4 attr_oriented orientation"
    and "g6 = set_edge_attributes g5 attr_index (zip (edge_keys g5) [0 ..< length (edge_keys g5)])"
    and "kasteleyn st G (s4(G \<mapsto> Graph g6)) = (s7, Inr K)"
    and "logsqrtdet (lu st) K = Inr lsd"
    and "s7 G = Some (Graph gF)"
  shows "log_partition_bqm st bqm pos s =
           (s7, Inr (fsub (fsub lsd (py_sum (edge_weights gF))) off))"
  using assms
  by (simp add: log_partition_bqm_def bnd_def call_def py_len_def update_graph_def
      with_graph_def pure_result_def return_value_def)

text \<open>The theorem on the triangle: the run returns \<open>0 - 3 - 0\<close>.\<close>

theorem log_partition_bqm_value_witness:
  "log_partition_bqm example_stages 0 1 example_store =
     (example_store(2 \<mapsto> Graph example_final_graph), Inr (Fin (- 3)))"
proof -
  let ?s1 = "example_store(2 \<mapsto> Graph example_graph)"
  let ?g3 = "example_graph\<lparr>nodes := nodes example_final_graph\<rparr>"
  let ?s3 = "?s1(2 \<mapsto> Graph ?g3)"
  have h1: "example_store 0 = Some (BQM example_triangle)"
    by (simp add: example_store_def)
  have h2: "3 \<le> length (linear example_triangle)"
    by (simp add: example_triangle_def)
  have h3: "bqm_to_multigraph example_stages 0 example_store = (?s1, Inr (2, Fin 0))"
    by (simp add: example_stages_def example_store_def)
  have h4: "rotation_from_coordinates example_stages 2 1 ?s1 =
      (?s1, Inr [(''a'', [(''a'', ''b'', 0), (''a'', ''c'', 0)]),
                 (''b'', [(''b'', ''c'', 0), (''b'', ''a'', 0)]),
                 (''c'', [(''c'', ''a'', 0), (''c'', ''b'', 0)])])"
    by (simp add: example_stages_def)
  have h5: "?s1 2 = Some (Graph example_graph)" by simp
  have h6: "plane_triangulate example_stages 2
      (?s1(2 \<mapsto> Graph (set_node_attributes example_graph attr_rotation
        [(''a'', [(''a'', ''b'', 0), (''a'', ''c'', 0)]),
         (''b'', [(''b'', ''c'', 0), (''b'', ''a'', 0)]),
         (''c'', [(''c'', ''a'', 0), (''c'', ''b'', 0)])]))) = (?s3, Inr ())"
    by (simp only: example_rotated) (simp add: example_stages_def)
  have h7: "odd_edge_orientation example_stages 2 ?s3 =
      (?s3, Inr [((''a'', ''b'', 0), True), ((''b'', ''c'', 0), True), ((''a'', ''c'', 0), False)])"
    by (simp add: example_stages_def)
  have h8: "?s3 2 = Some (Graph ?g3)" by simp
  have h11: "kasteleyn example_stages 2 (?s3(2 \<mapsto> Graph example_final_graph)) =
      (?s3(2 \<mapsto> Graph example_final_graph), Inr [[Fin 0, Fin 1], [Fin (- 1), Fin 0]])"
    by (simp add: example_stages_def)
  have h13: "(?s3(2 \<mapsto> Graph example_final_graph)) 2 = Some (Graph example_final_graph)" by simp
  have "log_partition_bqm example_stages 0 1 example_store =
      (?s3(2 \<mapsto> Graph example_final_graph),
       Inr (fsub (fsub (Fin 0) (py_sum (edge_weights example_final_graph))) (Fin 0)))"
    by (rule log_partition_bqm_value [OF h1 h2 h3 h4 h5 h6 h7 h8 refl
          example_oriented_indexed [symmetric] h11 example_lsd h13])
  then show ?thesis by (simp add: example_weights fsub_def)
qed

subsection \<open>The guard on the number of variables\<close>

lemma nve_bnd: "no_value_error m \<Longrightarrow> (\<And>x. no_value_error (f x)) \<Longrightarrow> no_value_error (bnd m f)"
  unfolding no_value_error_def bnd_def
  by (auto split: prod.splits sum.splits) (metis snd_conv)+

lemma nve_call: "no_value_error (call m)"
  unfolding no_value_error_def call_def by (auto split: prod.splits sum.splits)

lemma nve_return_value: "no_value_error (return_value x)"
  by (simp add: no_value_error_def return_value_def)

lemma nve_with_graph: "no_value_error (with_graph G f)"
  by (auto simp: no_value_error_def with_graph_def split: option.splits pyobj.splits)

lemma nve_update_graph: "no_value_error (update_graph G f)"
  by (auto simp: no_value_error_def update_graph_def split: option.splits pyobj.splits)

lemma nve_logsqrtdet: "no_value_error (pure_result (logsqrtdet f K))"
  by (auto simp: no_value_error_def pure_result_def logsqrtdet_def split: sum.splits)

lemma nve_after_builder: "no_value_error (after_builder st pos G off)"
  unfolding after_builder_def
  by (intro nve_bnd nve_call nve_update_graph nve_with_graph nve_logsqrtdet nve_return_value)

text \<open>
  Claim C4. With fewer than three variables the function raises its \<open>ValueError\<close> with
  the store as it was and whatever the stage functions are: none of them is called. With
  three or more variables no \<open>ValueError\<close> of the function's own is raised (an exception of
  a stage is passed on as \<open>Propagated\<close>).
\<close>

theorem log_partition_bqm_guard:
  assumes "s bqm = Some (BQM b)"
  shows "(length (linear b) < 3 \<longrightarrow>
            log_partition_bqm st bqm pos s =
               (s, Inl (ValueError ''bqm must have at least three variables''))) \<and>
         (3 \<le> length (linear b) \<longrightarrow>
            snd (log_partition_bqm st bqm pos s) \<noteq> Inl (ValueError msg))"
proof (intro conjI impI)
  assume "length (linear b) < 3"
  then show "log_partition_bqm st bqm pos s =
      (s, Inl (ValueError ''bqm must have at least three variables''))"
    using assms by (simp add: log_partition_bqm_unfold bnd_def py_len_def raise_error_def)
next
  assume n: "3 \<le> length (linear b)"
  have "no_value_error (bnd (call (bqm_to_multigraph st bqm)) (\<lambda>(G, off). after_builder st pos G off))"
    by (intro nve_bnd nve_call) (simp add: nve_after_builder split: prod.splits)
  moreover have "log_partition_bqm st bqm pos s =
      bnd (call (bqm_to_multigraph st bqm)) (\<lambda>(G, off). after_builder st pos G off) s"
    using assms n by (simp add: log_partition_bqm_unfold bnd_def [of "py_len bqm"] py_len_def)
  ultimately show "snd (log_partition_bqm st bqm pos s) \<noteq> Inl (ValueError msg)"
    unfolding no_value_error_def by simp
qed

text \<open>The theorem on a model of two variables and on the triangle.\<close>

theorem log_partition_bqm_guard_witness:
  "log_partition_bqm example_stages 0 1 example_small_store =
     (example_small_store, Inl (ValueError ''bqm must have at least three variables'')) \<and>
   snd (log_partition_bqm example_stages 0 1 example_store) \<noteq>
     Inl (ValueError ''bqm must have at least three variables'')"
  using log_partition_bqm_guard [of example_small_store 0 example_bqm example_stages 1]
    log_partition_bqm_guard [of example_store 0 example_triangle example_stages 1
      "''bqm must have at least three variables''"]
  by (simp add: example_small_store_def example_store_def example_bqm_def example_triangle_def)

subsection \<open>The caller's objects are left as they were\<close>

lemma keeps_bnd:
  assumes m: "keeps A m" and f: "\<And>x. keeps A (f x)"
  shows "keeps A (bnd m f)"
  unfolding keeps_def
proof (intro allI impI ballI)
  fix s s' r a
  assume run: "bnd m f s = (s', r)" and a: "a \<in> dom s" "a \<in> A"
  obtain s1 r1 where ms: "m s = (s1, r1)" by (cases "m s")
  have a1: "s1 a = s a" using m ms a unfolding keeps_def by blast
  show "s' a = s a"
  proof (cases r1)
    case (Inl e)
    then show ?thesis using run ms a1 by (simp add: bnd_def)
  next
    case (Inr x)
    then have "f x s1 = (s', r)" using run ms by (simp add: bnd_def)
    moreover have "a \<in> dom s1" using a a1 by (simp add: domIff)
    ultimately have "s' a = s1 a" using f [of x] a unfolding keeps_def by blast
    then show ?thesis using a1 by simp
  qed
qed

lemma keeps_call: "keeps A m \<Longrightarrow> keeps A (call m)"
  unfolding keeps_def call_def by (auto split: prod.splits sum.splits)

lemma keeps_return_value: "keeps A (return_value x)"
  by (simp add: keeps_def return_value_def)

lemma keeps_pure_result: "keeps A (pure_result r)"
  by (simp add: keeps_def pure_result_def)

lemma keeps_with_graph: "keeps A (with_graph G f)"
  by (auto simp: keeps_def with_graph_def split: option.splits pyobj.splits)

lemma keeps_update_graph: "G \<notin> A \<Longrightarrow> keeps A (update_graph G f)"
  by (auto simp: keeps_def update_graph_def split: option.splits pyobj.splits)

lemma stages_frame_builder:
  assumes "stages_frame st" and b: "bqm_to_multigraph st bqm s = (s', r)"
  shows "(\<forall>a\<in>dom s. s' a = s a) \<and> (\<forall>G off. r = Inr (G, off) \<longrightarrow> G \<notin> dom s)"
proof -
  have "\<forall>bqm s s' r. bqm_to_multigraph st bqm s = (s', r) \<longrightarrow>
          (\<forall>a\<in>dom s. s' a = s a) \<and> (\<forall>G off. r = Inr (G, off) \<longrightarrow> G \<notin> dom s)"
    using assms(1) unfolding stages_frame_def by (rule conjunct1)
  then show ?thesis using b by (elim allE [of _ bqm] allE [of _ s] allE [of _ s'] allE [of _ r]) simp
qed

lemma stages_frame_keeps:
  assumes "stages_frame st"
  shows "keeps (- {G}) (rotation_from_coordinates st G pos)"
    and "keeps (- {G}) (plane_triangulate st G)"
    and "keeps (- {G}) (odd_edge_orientation st G)"
    and "keeps (- {G}) (kasteleyn st G)"
  using assms unfolding stages_frame_def keeps_def by simp_all

lemma keeps_after_builder:
  assumes "stages_frame st"
  shows "keeps (- {G}) (after_builder st pos G off)"
  unfolding after_builder_def
  by (intro keeps_bnd keeps_call stages_frame_keeps [OF assms] keeps_update_graph
      keeps_with_graph keeps_pure_result keeps_return_value) simp_all

lemma example_stages_frame: "stages_frame example_stages"
  unfolding stages_frame_def
  by (simp add: example_stages_def split: if_splits) (auto split: if_splits)

text \<open>
  Claim C9. When the stage functions keep to their frame (\<open>stages_frame\<close>), a run of
  \<open>log_partition_bqm\<close>, whether it returns or raises, leaves every object that was in the
  store before the call as it was, the model and the coordinate map among them: the
  attribute writes of the function itself and the stages reach only the graph the
  builder created.
\<close>

theorem log_partition_bqm_frame:
  assumes fr: "stages_frame st" and run: "log_partition_bqm st bqm pos s = (s', res)"
  shows "\<forall>a\<in>dom s. s' a = s a"
proof (cases "py_len bqm s :: 'a store \<times> ('b error + nat)")
  case (Pair s0 r0)
  have s0: "s0 = s" using Pair by (auto simp: py_len_def split: option.splits pyobj.splits)
  show ?thesis
  proof (cases r0)
    case (Inl e)
    then show ?thesis using run Pair s0 by (simp add: log_partition_bqm_unfold bnd_def)
  next
    case (Inr n)
    show ?thesis
    proof (cases "n < 3")
      case True
      then show ?thesis using run Pair s0 Inr
        by (simp add: log_partition_bqm_unfold bnd_def raise_error_def)
    next
      case False
      obtain s1 r1 where b: "bqm_to_multigraph st bqm s = (s1, r1)" by (cases "bqm_to_multigraph st bqm s")
      have k1: "\<forall>a\<in>dom s. s1 a = s a" and fresh: "\<forall>G off. r1 = Inr (G, off) \<longrightarrow> G \<notin> dom s"
        using stages_frame_builder [OF fr b] by simp_all
      show ?thesis
      proof (cases r1)
        case (Inl e)
        then have "s' = s1" using run Pair s0 Inr False b
          by (simp add: log_partition_bqm_unfold bnd_def call_def)
        then show ?thesis using k1 by simp
      next
        case (Inr p)
        obtain G off where p: "p = (G, off)" by (cases p)
        have G: "G \<notin> dom s" using fresh Inr p by blast
        have rest: "after_builder st pos G off s1 = (s', res)"
          using run Pair s0 \<open>r0 = Inr n\<close> False b Inr p
          by (simp add: log_partition_bqm_unfold bnd_def call_def)
        have "\<forall>a\<in>dom s1. a \<in> - {G} \<longrightarrow> s' a = s1 a"
          using keeps_after_builder [OF fr, of G pos off] rest unfolding keeps_def by blast
        then show ?thesis using k1 G by (metis ComplI domIff singletonD)
      qed
    qed
  qed
qed

text \<open>The theorem on the triangle: the model at address 0 and the coordinate map at
  address 1 are unchanged after the run.\<close>

theorem log_partition_bqm_frame_witness:
  "stages_frame example_stages \<and>
   fst (log_partition_bqm example_stages 0 1 example_store) 0 = Some (BQM example_triangle) \<and>
   fst (log_partition_bqm example_stages 0 1 example_store) 1 = Some (Pos example_pos)"
proof -
  obtain s' res where run: "log_partition_bqm example_stages 0 1 example_store = (s', res)"
    by (cases "log_partition_bqm example_stages 0 1 example_store")
  have "\<forall>a\<in>dom example_store. s' a = example_store a"
    by (rule log_partition_bqm_frame [OF example_stages_frame run])
  then have "s' 0 = example_store 0" and "s' 1 = example_store 1"
    by (simp_all add: example_store_def)
  then show ?thesis
    using example_stages_frame run by (simp add: example_store_def)
qed

section \<open>Skew-symmetry of the Kasteleyn matrix\<close>

lemma vertex_index_less: "vertex_index order v = Some i \<Longrightarrow> i < length order"
proof -
  assume h: "vertex_index order v = Some i"
  then have v: "v \<in> set order" and i: "i = length (takeWhile (\<lambda>x. x \<noteq> v) order)"
    by (auto simp: vertex_index_def split: if_splits)
  have "length (takeWhile (\<lambda>x. x \<noteq> v) order) < length order"
    using v by (induction order) auto
  then show ?thesis using i by simp
qed

lemma entry_update:
  assumes "length K = n" "\<forall>i<n. length (K ! i) = n" "i < n" "j < n" "a < n" "b < n"
  shows "K[i := (K ! i)[j := v]] ! a ! b = (if a = i \<and> b = j then v else K ! a ! b)"
  using assms by (simp add: nth_list_update)

lemma dims_update:
  assumes "length K = n" "\<forall>i<n. length (K ! i) = n"
  shows "length (K[i := (K ! i)[j := v]]) = n \<and> (\<forall>a<n. length (K[i := (K ! i)[j := v]] ! a) = n)"
proof (intro conjI allI impI)
  show "length (K[i := (K ! i)[j := v]]) = n" using assms by simp
next
  fix a assume "a < n"
  then show "length (K[i := (K ! i)[j := v]] ! a) = n"
    using assms by (cases "a = i") (simp_all add: nth_list_update)
qed

lemma skew_step:
  assumes sk: "skew n K" and t: "t < n" and h: "h < n"
  shows "skew n (sub_entry (add_entry K t h (Fin c)) h t (Fin c))"
proof -
  let ?K1 = "add_entry K t h (Fin c)"
  let ?K2 = "sub_entry ?K1 h t (Fin c)"
  have len: "length K = n" and rows: "\<forall>i<n. length (K ! i) = n"
    and ent: "\<And>i j. i < n \<Longrightarrow> j < n \<Longrightarrow> \<exists>x. K ! i ! j = Fin x \<and> K ! j ! i = Fin (- x)"
    using sk unfolding skew_def by blast+
  have d1: "length ?K1 = n" "\<forall>a<n. length (?K1 ! a) = n"
    using dims_update [OF len rows] unfolding add_entry_def by blast+
  have d2: "length ?K2 = n" "\<forall>a<n. length (?K2 ! a) = n"
    using dims_update [OF d1] unfolding sub_entry_def by blast+
  have e1: "\<And>a b. a < n \<Longrightarrow> b < n \<Longrightarrow>
      ?K1 ! a ! b = (if a = t \<and> b = h then fadd (K ! t ! h) (Fin c) else K ! a ! b)"
    unfolding add_entry_def using entry_update [OF len rows t h] by blast
  have e2: "\<And>a b. a < n \<Longrightarrow> b < n \<Longrightarrow>
      ?K2 ! a ! b = (if a = h \<and> b = t then fsub (?K1 ! h ! t) (Fin c) else ?K1 ! a ! b)"
    unfolding sub_entry_def using entry_update [OF d1 h t] by blast
  obtain y where y: "K ! t ! h = Fin y" "K ! h ! t = Fin (- y)" using ent [OF t h] by blast
  have th: "?K2 ! t ! h = Fin (y + c)" if "t \<noteq> h"
    using that y e2 [OF t h] e1 [OF t h] by simp
  have ht: "?K2 ! h ! t = Fin (- (y + c))" if "t \<noteq> h"
    using that y e2 [OF h t] e1 [OF h t] by (simp add: fsub_def)
  have tt: "?K2 ! t ! t = Fin 0" if "t = h"
    using that y e2 [OF t t] e1 [OF t t] by (simp add: fsub_def)
  have other: "?K2 ! a ! b = K ! a ! b"
    if "a < n" "b < n" "\<not> (a = t \<and> b = h)" "\<not> (a = h \<and> b = t)" for a b
  proof -
    have "?K2 ! a ! b = ?K1 ! a ! b"
      by (simp only: e2 [OF that(1,2)] if_not_P [OF that(4)])
    also have "\<dots> = K ! a ! b"
      by (simp only: e1 [OF that(1,2)] if_not_P [OF that(3)])
    finally show ?thesis .
  qed
  have "\<exists>x. ?K2 ! i ! j = Fin x \<and> ?K2 ! j ! i = Fin (- x)" if i: "i < n" and j: "j < n" for i j
  proof -
    consider (a) "i = t" "j = h" "t \<noteq> h" | (b) "i = h" "j = t" "t \<noteq> h" | (c) "i = t" "j = h" "t = h"
      | (d) "\<not> (i = t \<and> j = h)" "\<not> (i = h \<and> j = t)" by blast
    then show ?thesis
    proof cases
      case a
      then show ?thesis using th ht by simp
    next
      case b
      then show ?thesis using th ht by simp
    next
      case c
      then show ?thesis using tt by simp
    next
      case d
      then have "?K2 ! i ! j = K ! i ! j" "?K2 ! j ! i = K ! j ! i"
        using other [OF i j] other [OF j i] by blast+
      then show ?thesis using ent [OF i j] by simp
    qed
  qed
  then show ?thesis unfolding skew_def using d2 by blast
qed

lemma skew_zeros: "skew n (replicate n (replicate n (Fin 0)))"
  by (simp add: skew_def)

lemma skew_edge:
  assumes "skew n K" "n = length order" "kasteleyn_edge order K ea = Inr K'"
    "is_finite (get_weight (snd ea))"
  shows "skew n K'"
proof -
  obtain u v k a where ea: "ea = ((u, v, k), a)" by (cases ea) auto
  obtain c where c: "get_weight a = Fin c" using assms(4) ea by (cases "get_weight a") simp_all
  from assms(3) ea obtain d t h where
    "vertex_index order (if d then u else v) = Some t"
    "vertex_index order (if d then v else u) = Some h"
    "K' = sub_entry (add_entry K t h (get_weight a)) h t (get_weight a)"
    by (auto simp: kasteleyn_edge_def split: option.splits)
  then show ?thesis
    using skew_step [OF assms(1), of t h c] vertex_index_less assms(2) c by metis
qed

lemma skew_edges:
  "skew n K \<Longrightarrow> n = length order \<Longrightarrow> kasteleyn_edges order K es = Inr K' \<Longrightarrow>
   \<forall>ea\<in>set es. is_finite (get_weight (snd ea)) \<Longrightarrow> skew n K'"
proof (induction es arbitrary: K)
  case Nil
  then show ?case by simp
next
  case (Cons ea es)
  from Cons.prems(3) obtain K1 where k1: "kasteleyn_edge order K ea = Inr K1"
    and rest: "kasteleyn_edges order K1 es = Inr K'"
    by (auto split: sum.splits)
  have "skew n K1" using skew_edge [OF Cons.prems(1,2) k1] Cons.prems(4) by simp
  then show ?case using Cons.IH [OF _ Cons.prems(2) rest] Cons.prems(4) by simp
qed

lemma example_parallel_matrix:
  "kasteleyn_spec [''a'', ''b''] example_parallel = Inr [[Fin 0, Fin (- 1)], [Fin 1, Fin 0]]"
  by (simp add: kasteleyn_spec_def example_parallel_def kasteleyn_edge_def vertex_index_def
      add_entry_def sub_entry_def get_weight_def fsub_def)

text \<open>
  Claim C5. For a graph whose edges are oriented, have their end points in the vertex
  ordering and carry finite weights, the assembled matrix has \<open>K[i][j] = -K[j][i]\<close> for
  all indices and a zero diagonal.
\<close>

theorem kasteleyn_skew_symmetric:
  assumes "kasteleyn_spec order g = Inr K"
    and "\<forall>ea\<in>set (edges g). is_finite (get_weight (snd ea))"
    and "i < length order" and "j < length order"
  shows "K ! i ! j = fneg (K ! j ! i) \<and> K ! i ! i = Fin 0"
proof -
  have sk: "skew (length order) K"
    using skew_edges [OF skew_zeros refl] assms(1,2) unfolding kasteleyn_spec_def by blast
  obtain x where x: "K ! i ! j = Fin x" "K ! j ! i = Fin (- x)"
    using sk assms(3,4) unfolding skew_def by blast
  obtain y where y: "K ! i ! i = Fin y" "K ! i ! i = Fin (- y)"
    using sk assms(3) unfolding skew_def by blast
  then have "y = 0" by simp
  then show ?thesis using x y by simp
qed

text \<open>The theorem on \<open>example_parallel\<close>, at the entry \<open>(0, 1)\<close>.\<close>

theorem kasteleyn_skew_symmetric_witness:
  "kasteleyn_spec [''a'', ''b''] example_parallel = Inr [[Fin 0, Fin (- 1)], [Fin 1, Fin 0]] \<and>
   [[Fin 0, Fin (- 1)], [Fin 1, Fin 0]] ! 0 ! 1 = fneg ([[Fin 0, Fin (- 1)], [Fin 1, Fin 0]] ! 1 ! 0) \<and>
   [[Fin 0, Fin (- 1)], [Fin 1, Fin 0 :: fl]] ! 0 ! 0 = Fin 0"
  using kasteleyn_skew_symmetric [OF example_parallel_matrix, of 0 1] example_parallel_matrix
  by (simp add: example_parallel_def get_weight_def)

section \<open>The triangulator on a triangulated graph\<close>

text \<open>A face of more than three edges gets one chord per edge beyond the third.\<close>

lemma add_chord_edges: "length (edges (add_chord g v0 a0 vi ai)) = Suc (length (edges g))"
  by (simp add: add_chord_def Let_def)

lemma foldl_add_chord_edges:
  "length (edges (foldl (\<lambda>g i. add_chord g (p i) (q i) (r i) (t i)) g is)) =
   length (edges g) + length is"
  by (induction "is" arbitrary: g) (simp_all add: add_chord_edges)

lemma triangulate_face_edges:
  "3 < length f \<Longrightarrow>
   length (edges (triangulate_face g f)) = length (edges g) + (length f - 3)"
  unfolding triangulate_face_def
  using foldl_add_chord_edges [of "\<lambda>i. fst (f ! 0)" "\<lambda>i. reverse_dart (last f)"
      "\<lambda>i. fst (f ! i)" "\<lambda>i. reverse_dart (f ! (i - 1))" g "[2 ..< length f - 1]"]
  by simp

lemma example_square_faces:
  "faces example_square =
     Some [[(''a'', ''b'', 0), (''b'', ''c'', 0), (''c'', ''d'', 0), (''d'', ''a'', 0)],
           [(''a'', ''d'', 0), (''d'', ''c'', 0), (''c'', ''b'', 0), (''b'', ''a'', 0)]]"
  by code_simp

lemma example_square_result:
  "plane_triangulate_spec example_square = Inr example_square_triangulated"
  by code_simp

lemma example_square_triangulated_faces:
  "faces example_square_triangulated =
     Some [[(''a'', ''b'', 0), (''b'', ''c'', 0), (''c'', ''a'', 0)],
           [(''a'', ''c'', 1), (''c'', ''b'', 0), (''b'', ''a'', 0)],
           [(''a'', ''d'', 0), (''d'', ''c'', 0), (''c'', ''a'', 1)],
           [(''a'', ''c'', 0), (''c'', ''d'', 0), (''d'', ''a'', 0)]]"
  by code_simp

text \<open>
  Claim C7. On a graph whose rotation system is valid (the face walk succeeds) and whose
  faces all have exactly three edges, the triangulator returns the graph as it is: no
  edge is added and no attribute of a vertex or an edge is changed.
\<close>

theorem plane_triangulate_idempotent:
  assumes "faces g = Some fs" and "\<forall>f\<in>set fs. length f = 3"
  shows "plane_triangulate_spec g = Inr g"
proof -
  have "foldl triangulate_face h fs = h" for h :: "'a multigraph"
    using assms(2) by (induction fs arbitrary: h) (simp_all add: triangulate_face_def)
  then show ?thesis using assms(1) by (simp add: plane_triangulate_spec_def)
qed


text \<open>The theorem on the triangulated square: a second run of the triangulator changes
  nothing.\<close>

theorem plane_triangulate_idempotent_witness:
  "faces example_square_triangulated =
     Some [[(''a'', ''b'', 0), (''b'', ''c'', 0), (''c'', ''a'', 0)],
           [(''a'', ''c'', 1), (''c'', ''b'', 0), (''b'', ''a'', 0)],
           [(''a'', ''d'', 0), (''d'', ''c'', 0), (''c'', ''a'', 1)],
           [(''a'', ''c'', 0), (''c'', ''d'', 0), (''d'', ''a'', 0)]] \<and>
   plane_triangulate_spec example_square_triangulated = Inr example_square_triangulated"
  using plane_triangulate_idempotent [OF example_square_triangulated_faces]
    example_square_triangulated_faces
  by simp

section \<open>The determinant of a product with an upper triangular factor\<close>



























section \<open>The value of the Pfaffian evaluator\<close>




end
